theory Spec2Isabelle
  imports Main "HOL-Library.Word"
begin

section \<open>JavaScript values handled by the realtime adapter\<close>

text \<open>
  The payloads of \<^verbatim>\<open>src/ws/index.ts\<close> are arbitrary JavaScript values
  (\<^verbatim>\<open>Route['response']\<close>). The adapter inspects them with \<^verbatim>\<open>typeof\<close>
  and \<^verbatim>\<open>Buffer.isBuffer\<close> and hands them to \<^verbatim>\<open>JSON.stringify\<close>. A value is a finite
  tree; \<open>JCyclic\<close> stands for an object whose properties lead back to itself, of which
  only its being an object matters here. Functions and symbols are left out.
\<close>

datatype js_value =
    JUndefined
  | JNull
  | JBoolean bool
  | JNumber int
  | JBigInt int
  | JString string
  | JBuffer "8 word list"
  | JArray "js_value list"
  | JObject "(string \<times> js_value) list"
  | JCyclic

text \<open>The \<^verbatim>\<open>typeof\<close> operator: \<^verbatim>\<open>null\<close>, buffers, arrays and plain objects are
  all \<^verbatim>\<open>'object'\<close>.\<close>

fun typeof :: "js_value \<Rightarrow> string" where
  "typeof JUndefined = ''undefined''"
| "typeof JNull = ''object''"
| "typeof (JBoolean b) = ''boolean''"
| "typeof (JNumber n) = ''number''"
| "typeof (JBigInt n) = ''bigint''"
| "typeof (JString s) = ''string''"
| "typeof (JBuffer bs) = ''object''"
| "typeof (JArray vs) = ''object''"
| "typeof (JObject kvs) = ''object''"
| "typeof JCyclic = ''object''"

text \<open>\<^verbatim>\<open>Buffer.isBuffer\<close>.\<close>

fun isBuffer :: "js_value \<Rightarrow> bool" where
  "isBuffer (JBuffer bs) = True"
| "isBuffer v = False"

text \<open>\<^verbatim>\<open>Number.prototype.toString()\<close> on a non-negative integer: its decimal digits.\<close>

definition digit :: "nat \<Rightarrow> char" where
  "digit d = ''0123456789'' ! d"

function toString :: "nat \<Rightarrow> string" where
  "toString n = (if n < 10 then [digit n] else toString (n div 10) @ [digit (n mod 10)])"
  by pat_completeness auto
termination
  by (relation "measure id") auto

declare toString.simps [simp del]

section \<open>The websocket event table (\<^verbatim>\<open>export const websocket\<close>)\<close>

text \<open>
  \<^verbatim>\<open>websocket\<close> is a \<^verbatim>\<open>WebSocketHandler<any>\<close>: the socket type belongs to the
  runtime, so the model is parametric in it (\<open>'s\<close>) and takes the field access
  \<^verbatim>\<open>ws.data\<close> as the parameter \<open>data_of\<close>; the data object is there, as the
  socket type has it (\<^verbatim>\<open>data: T\<close>). A handler stored in the data is user code; it is
  a transformer of the world \<open>'w\<close> it runs in. An absent handler is \<open>None\<close>
  (\<^verbatim>\<open>?.()\<close> skips the call).
\<close>

record ('s, 'w) handlers =
  data_open :: "('s \<Rightarrow> 'w \<Rightarrow> 'w) option"
  data_message :: "('s \<Rightarrow> js_value \<Rightarrow> 'w \<Rightarrow> 'w) option"
  data_drain :: "('s \<Rightarrow> 'w \<Rightarrow> 'w) option"
  data_close :: "('s \<Rightarrow> int \<Rightarrow> string \<Rightarrow> 'w \<Rightarrow> 'w) option"

definition websocket_open :: "('s \<Rightarrow> ('s, 'w) handlers) \<Rightarrow> 's \<Rightarrow> 'w \<Rightarrow> 'w" where
  "websocket_open data_of ws w =
     (case data_open (data_of ws) of None \<Rightarrow> w | Some h \<Rightarrow> h ws w)"

definition websocket_message ::
  "('s \<Rightarrow> ('s, 'w) handlers) \<Rightarrow> 's \<Rightarrow> js_value \<Rightarrow> 'w \<Rightarrow> 'w" where
  "websocket_message data_of ws message w =
     (case data_message (data_of ws) of None \<Rightarrow> w | Some h \<Rightarrow> h ws message w)"

definition websocket_drain :: "('s \<Rightarrow> ('s, 'w) handlers) \<Rightarrow> 's \<Rightarrow> 'w \<Rightarrow> 'w" where
  "websocket_drain data_of ws w =
     (case data_drain (data_of ws) of None \<Rightarrow> w | Some h \<Rightarrow> h ws w)"

definition websocket_close ::
  "('s \<Rightarrow> ('s, 'w) handlers) \<Rightarrow> 's \<Rightarrow> int \<Rightarrow> string \<Rightarrow> 'w \<Rightarrow> 'w" where
  "websocket_close data_of ws code reason w =
     (case data_close (data_of ws) of None \<Rightarrow> w | Some h \<Rightarrow> h ws code reason w)"

section \<open>The connection wrapper (\<^verbatim>\<open>class ElysiaWS\<close>)\<close>

text \<open>The compiled schema checker \<^verbatim>\<open>TypeCheck<TSchema>\<close>: only its \<^verbatim>\<open>Check\<close> is used.\<close>

record TypeCheck =
  Check :: "js_value \<Rightarrow> bool"

text \<open>
  The runtime's socket, \<^verbatim>\<open>ServerWebSocket<{ id?: string; validator?: TypeCheck }>\<close>.
  Its state is the user data and, since the transport itself is outside the repository,
  the list of calls it has received, oldest first.
\<close>

record ws_data =
  data_id :: "string option"
  data_validator :: "TypeCheck option"

datatype raw_call =
    RawPublish string js_value "bool option"
  | RawSend js_value
  | RawSendBinary js_value
  | RawSendText js_value
  | RawSubscribe string
  | RawUnsubscribe string
  | RawClose

record ServerWebSocket =
  data :: ws_data
  calls :: "raw_call list"

definition raw_do :: "raw_call \<Rightarrow> ServerWebSocket \<Rightarrow> ServerWebSocket" where
  "raw_do c s = s\<lparr>calls := calls s @ [c]\<rparr>"

text \<open>
  Modelled from the spec: \<^verbatim>\<open>class ValidationError\<close> of \<^verbatim>\<open>src/error.ts\<close> is not among
  the sources. It is built from the field name, the checker and the rejected value, and
  its code is \<^verbatim>\<open>VALIDATION\<close> (schema check failed). \<open>TypeError\<close> is the exception of
  the language that \<^verbatim>\<open>JSON.stringify\<close> throws on a value it cannot serialise (a BigInt,
  a cyclic object); it carries no code.
\<close>

datatype error = ValidationError string TypeCheck js_value | TypeError

fun code :: "error \<Rightarrow> string option" where
  "code (ValidationError field v val) = Some ''VALIDATION''"
| "code TypeError = None"

text \<open>
  The wrapper object: \<^verbatim>\<open>raw\<close>, \<^verbatim>\<open>data\<close> (the request context, here \<open>context\<close>) and
  \<^verbatim>\<open>validator\<close>.
\<close>

record 'c ElysiaWS =
  raw :: ServerWebSocket
  "context" :: 'c
  validator :: "TypeCheck option"

text \<open>\<^verbatim>\<open>get id()\<close> and \<^verbatim>\<open>set id(newID)\<close>.\<close>

definition get_id :: "'c ElysiaWS \<Rightarrow> string option" where
  "get_id this = data_id (data (raw this))"

definition set_id :: "'c ElysiaWS \<Rightarrow> string \<Rightarrow> 'c ElysiaWS" where
  "set_id this newID = this\<lparr>raw := (raw this)\<lparr>data := (data (raw this))\<lparr>data_id := Some newID\<rparr>\<rparr>\<rparr>"

text \<open>
  The constructor. \<open>rnd\<close> is the element that \<^verbatim>\<open>crypto.getRandomValues\<close> writes
  into the \<^verbatim>\<open>Uint32Array(1)\<close>. The test \<^verbatim>\<open>if (raw.data.id)\<close> is a truthiness test:
  \<^verbatim>\<open>undefined\<close> and the empty string both fail it.
\<close>

definition new_ElysiaWS :: "32 word \<Rightarrow> ServerWebSocket \<Rightarrow> 'c \<Rightarrow> 'c ElysiaWS" where
  "new_ElysiaWS rnd raw0 ctx =
     (let this = \<lparr>raw = raw0, context = ctx, validator = data_validator (data raw0)\<rparr>
      in case data_id (data raw0) of
           None \<Rightarrow> set_id this (toString (unat rnd))
         | Some i \<Rightarrow> if i \<noteq> [] then set_id this i else set_id this (toString (unat rnd)))"

text \<open>
  The guard shared by the four outbound operations:
  \<^verbatim>\<open>if (this.validator?.Check(data) === false) throw new ValidationError('message', this.validator, data)\<close>.
  The result is the exception to throw, if any.
\<close>

definition validate :: "'c ElysiaWS \<Rightarrow> js_value \<Rightarrow> error option" where
  "validate this d =
     (case validator this of
        None \<Rightarrow> None
      | Some v \<Rightarrow> if Check v d = False then Some (ValidationError ''message'' v d) else None)"

text \<open>
  Each operation returns the wrapper after the call (a normal return gives back \<^verbatim>\<open>this\<close>)
  together with the exception thrown, if any. \<^verbatim>\<open>JSON.stringify\<close> is the parameter
  \<open>stringify\<close>: it gives the text, or \<open>None\<close> when it throws, and then the
  exception leaves the operation before the socket is called. The socket's own methods
  report their outcome by a number that the wrapper ignores; they return normally.
\<close>

definition publish ::
  "(js_value \<Rightarrow> string option) \<Rightarrow> 'c ElysiaWS \<Rightarrow> string \<Rightarrow> js_value \<Rightarrow> bool option
     \<Rightarrow> 'c ElysiaWS \<times> error option" where
  "publish stringify this topic d compress =
     (case validate this d of
        Some e \<Rightarrow> (this, Some e)
      | None \<Rightarrow>
          if typeof d = ''object'' then
            (case stringify d of
               None \<Rightarrow> (this, Some TypeError)
             | Some text \<Rightarrow>
                 (this\<lparr>raw := raw_do (RawPublish topic (JString text) compress) (raw this)\<rparr>,
                  None))
          else (this\<lparr>raw := raw_do (RawPublish topic d compress) (raw this)\<rparr>, None))"

definition send ::
  "(js_value \<Rightarrow> string option) \<Rightarrow> 'c ElysiaWS \<Rightarrow> js_value
     \<Rightarrow> 'c ElysiaWS \<times> error option" where
  "send stringify this d =
     (case validate this d of
        Some e \<Rightarrow> (this, Some e)
      | None \<Rightarrow>
          if isBuffer d then (this\<lparr>raw := raw_do (RawSend d) (raw this)\<rparr>, None)
          else if typeof d = ''object'' then
            (case stringify d of
               None \<Rightarrow> (this, Some TypeError)
             | Some text \<Rightarrow> (this\<lparr>raw := raw_do (RawSend (JString text)) (raw this)\<rparr>, None))
          else (this\<lparr>raw := raw_do (RawSend d) (raw this)\<rparr>, None))"

definition sendBinary :: "'c ElysiaWS \<Rightarrow> js_value \<Rightarrow> 'c ElysiaWS \<times> error option" where
  "sendBinary this d =
     (case validate this d of
        Some e \<Rightarrow> (this, Some e)
      | None \<Rightarrow> (this\<lparr>raw := raw_do (RawSendBinary d) (raw this)\<rparr>, None))"

definition sendText :: "'c ElysiaWS \<Rightarrow> js_value \<Rightarrow> 'c ElysiaWS \<times> error option" where
  "sendText this d =
     (case validate this d of
        Some e \<Rightarrow> (this, Some e)
      | None \<Rightarrow> (this\<lparr>raw := raw_do (RawSendText d) (raw this)\<rparr>, None))"

definition subscribe :: "'c ElysiaWS \<Rightarrow> string \<Rightarrow> 'c ElysiaWS" where
  "subscribe this room = this\<lparr>raw := raw_do (RawSubscribe room) (raw this)\<rparr>"

definition unsubscribe :: "'c ElysiaWS \<Rightarrow> string \<Rightarrow> 'c ElysiaWS" where
  "unsubscribe this room = this\<lparr>raw := raw_do (RawUnsubscribe room) (raw this)\<rparr>"

definition close :: "'c ElysiaWS \<Rightarrow> 'c ElysiaWS" where
  "close this = this\<lparr>raw := raw_do RawClose (raw this)\<rparr>"

text \<open>
  Not modelled: \<^verbatim>\<open>cork\<close>, which runs a callback of the caller on the socket;
  \<^verbatim>\<open>terminate\<close> and \<^verbatim>\<open>isSubscribed\<close>, which hand out the socket's own methods; and
  \<^verbatim>\<open>remoteAddress\<close>, which reads a field of the socket.
\<close>

section \<open>Types of \<^verbatim>\<open>types.ts\<close> as data\<close>

text \<open>
  The remaining definitions of the repository are type-level programs. A TypeScript type
  is represented by a value of \<open>ts_type\<close>; a union of string literals (such as the
  result of \<^verbatim>\<open>GetPathParameter\<close>) by the list of its members, \<^verbatim>\<open>never\<close> being the
  empty list; a type-level function by a function on these representations.

  \<open>TObject\<close> is an object type written as a literal, with required properties.
  Intersection types are not represented: the compiler reduces \<^verbatim>\<open>any & T\<close>,
  \<^verbatim>\<open>unknown & T\<close> and \<^verbatim>\<open>never & T\<close> as soon as it builds them, and an intersection
  that it keeps (two object types, a branded primitive) is outside this fragment.
\<close>

datatype ts_type =
    TAny
  | TUnknown
  | TNever
  | TUndefined
  | TVoid
  | TNull
  | TString
  | TNumber
  | TBoolean
  | TObject "(string \<times> ts_type) list"
  | TUnion ts_type ts_type

text \<open>
  The compiler reduces a union as it builds it: \<^verbatim>\<open>any\<close> absorbs every other member,
  then \<^verbatim>\<open>unknown\<close> does, and \<^verbatim>\<open>never\<close> disappears.
\<close>

fun reduce :: "ts_type \<Rightarrow> ts_type" where
  "reduce (TUnion a b) =
     (let a' = reduce a; b' = reduce b
      in if a' = TAny \<or> b' = TAny then TAny
         else if a' = TUnknown \<or> b' = TUnknown then TUnknown
         else if a' = TNever then b'
         else if b' = TNever then a'
         else TUnion a' b')"
| "reduce t = t"

text \<open>\<^verbatim>\<open>undefined extends T\<close>: is \<^verbatim>\<open>undefined\<close> assignable to \<open>T\<close> (strict null checks).\<close>

fun undefined_extends :: "ts_type \<Rightarrow> bool" where
  "undefined_extends TAny = True"
| "undefined_extends TUnknown = True"
| "undefined_extends TUndefined = True"
| "undefined_extends TVoid = True"
| "undefined_extends (TUnion a b) = (undefined_extends a \<or> undefined_extends b)"
| "undefined_extends t = False"

text \<open>
  \<^verbatim>\<open>T extends Record<string, unknown>\<close>: is \<open>T\<close> assignable to an object type. An
  object literal type, \<^verbatim>\<open>any\<close> and \<^verbatim>\<open>never\<close> are; a union is when it reduces to
  \<^verbatim>\<open>any\<close> or each member is.
\<close>

fun extends_Record :: "ts_type \<Rightarrow> bool" where
  "extends_Record (TObject ps) = True"
| "extends_Record TAny = True"
| "extends_Record TNever = True"
| "extends_Record (TUnion a b) =
     (reduce (TUnion a b) = TAny \<or> (extends_Record a \<and> extends_Record b))"
| "extends_Record t = False"

text \<open>
  \<^verbatim>\<open>A & B\<close>, where the reduction of the compiler yields a type of the fragment:
  \<^verbatim>\<open>never\<close> if a side is \<^verbatim>\<open>never\<close>; the other side if a side is \<^verbatim>\<open>unknown\<close>;
  \<^verbatim>\<open>any\<close> if a side is \<^verbatim>\<open>any\<close>; the type itself if both sides are the same type;
  \<^verbatim>\<open>never\<close> for \<^verbatim>\<open>undefined\<close> or \<^verbatim>\<open>null\<close> with an object type. \<open>None\<close> is an
  intersection outside the fragment.
\<close>

definition nullable :: "ts_type \<Rightarrow> bool" where
  "nullable t = (t = TUndefined \<or> t = TNull)"

fun is_object :: "ts_type \<Rightarrow> bool" where
  "is_object (TObject ps) = True"
| "is_object t = False"

definition intersect :: "ts_type \<Rightarrow> ts_type \<Rightarrow> ts_type option" where
  "intersect a b =
     (let a' = reduce a; b' = reduce b
      in if a' = TNever \<or> b' = TNever then Some TNever
         else if a' = TUnknown then Some b'
         else if b' = TUnknown then Some a'
         else if a' = TAny \<or> b' = TAny then Some TAny
         else if a' = b' then Some a'
         else if (nullable a' \<and> is_object b') \<or> (is_object a' \<and> nullable b') then Some TNever
         else None)"

text \<open>\<^verbatim>\<open>Record<K, T>\<close> for a union \<open>K\<close> of string literals.\<close>

definition Record_type :: "string list \<Rightarrow> ts_type \<Rightarrow> ts_type" where
  "Record_type K t = TObject (map (\<lambda>k. (k, t)) (remdups K))"

subsection \<open>Path parameters\<close>

text \<open>
  \<^verbatim>\<open>IsPathParameter<Part>\<close>: \<^verbatim>\<open>Part extends `:${infer Parameter}` ? Parameter :
  Part extends `*` ? '*' : never\<close>.
\<close>

definition IsPathParameter :: "string \<Rightarrow> string list" where
  "IsPathParameter Part =
     (case Part of
        c # Parameter \<Rightarrow>
          if c = CHR '':'' then [Parameter]
          else if Part = ''*'' then [''*'']
          else []
      | [] \<Rightarrow> [])"

text \<open>
  \<^verbatim>\<open>GetPathParameter<Path>\<close>: \<^verbatim>\<open>Path extends `${infer A}/${infer B}` ?
  IsPathParameter<A> | GetPathParameter<B> : IsPathParameter<Path>\<close>. The pattern matches
  when \<open>Path\<close> contains a slash; \<open>A\<close> is what precedes the first one and \<open>B\<close> what
  follows it.
\<close>

function GetPathParameter :: "string \<Rightarrow> string list" where
  "GetPathParameter Path =
     (if CHR ''/'' \<in> set Path
      then IsPathParameter (takeWhile (\<lambda>c. c \<noteq> CHR ''/'') Path)
           @ GetPathParameter (tl (dropWhile (\<lambda>c. c \<noteq> CHR ''/'') Path))
      else IsPathParameter Path)"
  by pat_completeness auto
termination
proof (relation "measure length")
  show "wf (measure (length :: string \<Rightarrow> nat))" by simp
next
  fix Path :: string
  assume slash: "CHR ''/'' \<in> set Path"
  let ?rest = "dropWhile (\<lambda>c. c \<noteq> CHR ''/'') Path"
  from slash have "?rest \<noteq> []" by simp
  then have "length (tl ?rest) < length ?rest" by (cases ?rest) simp_all
  also have "length ?rest \<le> length Path" by (rule length_dropWhile_le)
  finally show "(tl ?rest, Path) \<in> measure length" by simp
qed

declare GetPathParameter.simps [simp del]

text \<open>
  \<^verbatim>\<open>Path extends `${string}/${':' | '*'}${string}`\<close>: the path contains \<^verbatim>\<open>/:\<close> or
  \<^verbatim>\<open>/*\<close>.
\<close>

fun has_parameter_mark :: "string \<Rightarrow> bool" where
  "has_parameter_mark (a # b # cs) =
     ((a = CHR ''/'' \<and> (b = CHR '':'' \<or> b = CHR ''*'')) \<or> has_parameter_mark (b # cs))"
| "has_parameter_mark cs = False"

subsection \<open>Route schemas\<close>

text \<open>
  \<^verbatim>\<open>interface RouteSchema\<close>: six optional slots. \<open>None\<close> is a slot that the type does
  not have; the indexed access \<^verbatim>\<open>A['body']\<close> of such a slot is \<^verbatim>\<open>unknown\<close>.
\<close>

record RouteSchema =
  body :: "ts_type option"
  headers :: "ts_type option"
  query :: "ts_type option"
  params :: "ts_type option"
  cookie :: "ts_type option"
  response :: "ts_type option"

datatype slot = Body | Headers | Query | Params | Cookie | Response

fun slot_of :: "RouteSchema \<Rightarrow> slot \<Rightarrow> ts_type option" where
  "slot_of A Body = body A"
| "slot_of A Headers = headers A"
| "slot_of A Query = query A"
| "slot_of A Params = params A"
| "slot_of A Cookie = cookie A"
| "slot_of A Response = response A"

definition idx :: "RouteSchema \<Rightarrow> slot \<Rightarrow> ts_type" where
  "idx A s = (case slot_of A s of None \<Rightarrow> TUnknown | Some t \<Rightarrow> t)"

text \<open>\<^verbatim>\<open>MergeSchema<A, B>\<close>, slot by slot as the source writes it.\<close>

definition MergeSchema :: "RouteSchema \<Rightarrow> RouteSchema \<Rightarrow> RouteSchema" where
  "MergeSchema A B =
     \<lparr> body = Some (if undefined_extends (idx A Body) then idx B Body else idx A Body),
       headers = Some (if undefined_extends (idx A Headers) then idx B Headers else idx A Headers),
       query = Some (if undefined_extends (idx A Query) then idx B Query else idx A Query),
       params = Some (if undefined_extends (idx A Params) then idx B Params else idx A Params),
       cookie = Some (if undefined_extends (idx A Cookie) then idx B Cookie else idx A Cookie),
       response =
         Some (if undefined_extends (idx A Response) then idx B Response else idx A Response) \<rparr>"

text \<open>\<^verbatim>\<open>Schema extends { params: Record<string, unknown> }\<close>.\<close>

definition has_Record_params :: "RouteSchema \<Rightarrow> bool" where
  "has_Record_params Schema =
     (case params Schema of None \<Rightarrow> False | Some t \<Rightarrow> extends_Record t)"

text \<open>
  \<^verbatim>\<open>MergeRouteSchema<A, B, Path>\<close>: the merged schema when its \<^verbatim>\<open>params\<close> is an object
  type; otherwise \<^verbatim>\<open>Omit<Schema, 'params'> & { params: ... }\<close>, where the new slot is
  \<^verbatim>\<open>Record<GetPathParameter<Path>, string>\<close> behind the guard on \<open>Path\<close>, and \<^verbatim>\<open>never\<close>
  when the guard fails.
\<close>

definition MergeRouteSchema :: "RouteSchema \<Rightarrow> RouteSchema \<Rightarrow> string \<Rightarrow> RouteSchema" where
  "MergeRouteSchema A B Path =
     (let Schema = MergeSchema A B
      in if has_Record_params Schema then Schema
         else Schema\<lparr>params :=
                Some (if has_parameter_mark Path
                      then Record_type (GetPathParameter Path) TString
                      else TNever)\<rparr>)"

text \<open>
  The default of \<^verbatim>\<open>TypedRoute\<close> in \<^verbatim>\<open>LocalHook\<close>: \<open>Schema\<close> itself when its
  \<^verbatim>\<open>params\<close> is an object type; otherwise \<^verbatim>\<open>Schema & { params: undefined extends
  Schema['params'] ? Record<GetPathParameter<Path>, string> : Schema['params'] }\<close>. In
  the intersection a slot that \<open>Schema\<close> has is intersected with the new one; the result
  is \<open>None\<close> when that intersection is outside the fragment.
\<close>

definition TypedRoute :: "RouteSchema \<Rightarrow> string \<Rightarrow> RouteSchema option" where
  "TypedRoute Schema Path =
     (if has_Record_params Schema then Some Schema
      else
        (let added = (if undefined_extends (idx Schema Params)
                      then Record_type (GetPathParameter Path) TString
                      else idx Schema Params)
         in case params Schema of
              None \<Rightarrow> Some (Schema\<lparr>params := Some added\<rparr>)
            | Some t \<Rightarrow>
                (case intersect t added of
                   None \<Rightarrow> None
                 | Some both \<Rightarrow> Some (Schema\<lparr>params := Some both\<rparr>))))"

subsection \<open>Singleton namespaces\<close>

text \<open>
  An object type with named properties: each has a type (\<open>'v\<close>, left open) and may be
  optional (\<^verbatim>\<open>k?: V\<close>). \<^verbatim>\<open>keyof\<close> lists the names.
\<close>

record 'v property =
  optional :: bool
  ty :: 'v

type_synonym 'v object_type = "(string \<times> 'v property) list"

definition keyof :: "'v object_type \<Rightarrow> string list" where
  "keyof A = map fst A"

text \<open>
  \<^verbatim>\<open>{ [key in keyof A as key extends keyof B ? never : key]: A[key] }\<close>: the properties
  of \<open>A\<close> whose name \<open>B\<close> does not have. The mapped type ranges over \<^verbatim>\<open>keyof A\<close>, so
  each property keeps its optionality.
\<close>

definition Collision :: "'v object_type \<Rightarrow> 'v object_type \<Rightarrow> 'v object_type" where
  "Collision A B = filter (\<lambda>(key, p). key \<notin> set (keyof B)) A"

text \<open>\<^verbatim>\<open>{} extends C\<close>: the empty object is assignable to \<open>C\<close>, which is the case when
  \<open>C\<close> requires no property.\<close>

definition empty_extends :: "'v object_type \<Rightarrow> bool" where
  "empty_extends C = list_all (\<lambda>(key, p). optional p) C"

text \<open>
  \<^verbatim>\<open>Reconcile<A, B>\<close>: \<^verbatim>\<open>{} extends Collision ? { [key in keyof B]: B[key] } :
  Prettify<Collision & { [key in keyof B]: B[key] }>\<close>.
\<close>

definition Reconcile :: "'v object_type \<Rightarrow> 'v object_type \<Rightarrow> 'v object_type" where
  "Reconcile A B =
     (if empty_extends (Collision A B) then B else Collision A B @ B)"

subsection \<open>Trace events\<close>

text \<open>
  \<^verbatim>\<open>TraceEvent\<close>: the union \<open>Events\<close> of seven names, each also with the suffix
  \<^verbatim>\<open>.unit\<close>, and the two names \<^verbatim>\<open>handle\<close> and \<^verbatim>\<open>exit\<close>.
\<close>

definition Events :: "string list" where
  "Events = [''request'', ''parse'', ''transform'', ''beforeHandle'', ''afterHandle'',
             ''error'', ''response'']"

definition TraceEvent :: "string list" where
  "TraceEvent = Events @ map (\<lambda>e. e @ ''.unit'') Events @ [''handle'', ''exit'']"

text \<open>The keys of the \<^verbatim>\<open>lifecycle\<close> argument of a \<^verbatim>\<open>TraceHandler\<close> that hold a span
  (\<^verbatim>\<open>Promise<TraceProcess<'begin'>>\<close>).\<close>

definition TraceHandler_spans :: "string list" where
  "TraceHandler_spans = [''request'', ''parse'', ''transform'', ''beforeHandle'', ''handle'',
                         ''afterHandle'', ''error'', ''response'']"

subsection \<open>Error hooks\<close>

text \<open>
  The error classes of \<^verbatim>\<open>src/error.ts\<close> as the \<^verbatim>\<open>ErrorHandler\<close> type names them;
  \<open>Registered e\<close> is a class that an application registered by name.
\<close>

datatype 'e error_shape =
    Error
  | ValidationError_shape
  | NotFoundError
  | ParseError
  | InternalServerError
  | InvalidCookieSignature
  | Registered 'e

text \<open>
  The context of an \<^verbatim>\<open>ErrorHandler<T, ...>\<close> is a union of alternatives, each fixing the
  \<^verbatim>\<open>code\<close> and the type of \<^verbatim>\<open>error\<close>: six written out, and one for every key \<open>K\<close> of
  \<open>T\<close> with \<^verbatim>\<open>T[K]\<close>. \<open>T\<close> is the list of registered names with their classes.
\<close>

definition ErrorHandler :: "(string \<times> 'e error_shape) list \<Rightarrow> (string \<times> 'e error_shape) list" where
  "ErrorHandler T =
     [(''UNKNOWN'', Error),
      (''VALIDATION'', ValidationError_shape),
      (''NOT_FOUND'', NotFoundError),
      (''PARSE'', ParseError),
      (''INTERNAL_SERVER_ERROR'', InternalServerError),
      (''INVALID_COOKIE_SIGNATURE'', InvalidCookieSignature)]
     @ map (\<lambda>K. (K, the (map_of T K))) (map fst T)"

section \<open>Notions of the specification\<close>

text \<open>
  The definitions of this section follow the words of the specification, not the source;
  the theorems below compare them with the definitions above.
\<close>

text \<open>The stages of the request pipeline, as the specification lists them.\<close>

definition pipeline_stages :: "string list" where
  "pipeline_stages = [''request'', ''parse'', ''transform'', ''beforeHandle'', ''handle'',
                      ''afterHandle'', ''mapResponse'', ''onResponse'', ''error'']"

text \<open>
  The path-parameter tokens of a path: split it on the separator and keep each segment
  \<^verbatim>\<open>:name\<close> as \<^verbatim>\<open>name\<close> and each segment \<^verbatim>\<open>*\<close> as \<^verbatim>\<open>*\<close>.
\<close>

fun split_on :: "char \<Rightarrow> string \<Rightarrow> string list" where
  "split_on sep [] = [[]]"
| "split_on sep (c # cs) =
     (if c = sep then [] # split_on sep cs
      else (case split_on sep cs of seg # segs \<Rightarrow> (c # seg) # segs | [] \<Rightarrow> [[c]]))"

definition token_of :: "string \<Rightarrow> string option" where
  "token_of seg =
     (case seg of
        c # name \<Rightarrow> if c = CHR '':'' then Some name else if seg = ''*'' then Some ''*'' else None
      | [] \<Rightarrow> None)"

definition path_tokens :: "string \<Rightarrow> string list" where
  "path_tokens p = List.map_filter token_of (split_on CHR ''/'' p)"

text \<open>
  A schema without a \<^verbatim>\<open>params\<close> slot: the slot is missing, or it is \<^verbatim>\<open>unknown\<close>, which
  is what \<^verbatim>\<open>UnwrapSchema\<close> makes of a slot that a route does not declare.
\<close>

definition no_params_slot :: "RouteSchema \<Rightarrow> bool" where
  "no_params_slot S = (params S = None \<or> params S = Some TUnknown)"

text \<open>
  A schema defines a slot when it has the slot and the slot's type is not one of the two
  types that stand for an undeclared slot (\<^verbatim>\<open>unknown\<close> in \<^verbatim>\<open>UnwrapRoute\<close>,
  \<^verbatim>\<open>undefined\<close> in \<^verbatim>\<open>UnwrapGroupGuardRoute\<close>).
\<close>

definition slot_defined :: "RouteSchema \<Rightarrow> slot \<Rightarrow> bool" where
  "slot_defined A s =
     (case slot_of A s of
        None \<Rightarrow> False
      | Some t \<Rightarrow> reduce t \<noteq> TUndefined \<and> reduce t \<noteq> TUnknown)"

text \<open>The mapping from property names to types that an object type stands for.\<close>

fun fields :: "ts_type \<Rightarrow> string \<Rightarrow> ts_type option" where
  "fields (TObject ps) k = map_of ps k"
| "fields t k = None"

text \<open>
  The values of a type. \<^verbatim>\<open>undefined\<close> is assignable to a type exactly when it is one
  of its values.
\<close>

fun is_value_of :: "js_value \<Rightarrow> ts_type \<Rightarrow> bool" where
  "is_value_of v TAny = True"
| "is_value_of v TUnknown = True"
| "is_value_of v TNever = False"
| "is_value_of v TUndefined = (v = JUndefined)"
| "is_value_of v TVoid = (v = JUndefined)"
| "is_value_of v TNull = (v = JNull)"
| "is_value_of v TString = (case v of JString s \<Rightarrow> True | _ \<Rightarrow> False)"
| "is_value_of v TNumber = (case v of JNumber n \<Rightarrow> True | _ \<Rightarrow> False)"
| "is_value_of v TBoolean = (case v of JBoolean b \<Rightarrow> True | _ \<Rightarrow> False)"
| "is_value_of v (TObject ps) =
     (case v of
        JObject kvs \<Rightarrow>
          (\<forall>(k, t) \<in> set ps.
             case map_of kvs k of None \<Rightarrow> False | Some v' \<Rightarrow> is_value_of v' t)
      | _ \<Rightarrow> False)"
| "is_value_of v (TUnion a b) = (is_value_of v a \<or> is_value_of v b)"

section \<open>Example values\<close>

definition strings_only :: TypeCheck where
  "strings_only = \<lparr>Check = (\<lambda>v. typeof v = ''string'')\<rparr>"

text \<open>A serialiser that fails on the object \<^verbatim>\<open>{ n: 1n }\<close>, as \<^verbatim>\<open>JSON.stringify\<close> does
  on a BigInt, and on a cyclic object.\<close>

definition example_stringify :: "js_value \<Rightarrow> string option" where
  "example_stringify v =
     (if v = JObject [(''n'', JBigInt 1)] \<or> v = JCyclic then None else Some ''{}'')"

definition checked_socket :: ServerWebSocket where
  "checked_socket =
     \<lparr>data = \<lparr>data_id = Some ''c1'', data_validator = Some strings_only\<rparr>, calls = []\<rparr>"

definition plain_socket :: ServerWebSocket where
  "plain_socket = \<lparr>data = \<lparr>data_id = None, data_validator = None\<rparr>, calls = []\<rparr>"

definition logging_handlers :: "(nat, string list) handlers" where
  "logging_handlers =
     \<lparr>data_open = Some (\<lambda>ws w. w @ [''open'']),
      data_message = Some (\<lambda>ws m w. w @ [''message'']),
      data_drain = Some (\<lambda>ws w. w @ [''drain'']),
      data_close = Some (\<lambda>ws c r w. w @ [''close'', r])\<rparr>"

definition no_handlers :: "(nat, string list) handlers" where
  "no_handlers = \<lparr>data_open = None, data_message = None, data_drain = None, data_close = None\<rparr>"

definition empty_schema :: RouteSchema where
  "empty_schema =
     \<lparr>body = None, headers = None, query = None, params = None, cookie = None, response = None\<rparr>"

section \<open>The realtime adapter\<close>

subsection \<open>Event forwarding\<close>

text \<open>
  C7. Each of the four lifecycle events \<^verbatim>\<open>open\<close>, \<^verbatim>\<open>message\<close>, \<^verbatim>\<open>drain\<close>,
  \<^verbatim>\<open>close\<close> is forwarded to the handler of the same name stored in the connection's
  data, which receives the socket (and the message, respectively the code and the reason);
  when no such handler is stored nothing happens: the world is left as it was.
\<close>

theorem websocket_forwards:
  fixes data_of :: "'s \<Rightarrow> ('s, 'w) handlers"
  shows
    "(\<forall>h. data_open (data_of ws) = Some h \<longrightarrow> websocket_open data_of ws w = h ws w)
   \<and> (data_open (data_of ws) = None \<longrightarrow> websocket_open data_of ws w = w)
   \<and> (\<forall>h. data_message (data_of ws) = Some h \<longrightarrow> websocket_message data_of ws m w = h ws m w)
   \<and> (data_message (data_of ws) = None \<longrightarrow> websocket_message data_of ws m w = w)
   \<and> (\<forall>h. data_drain (data_of ws) = Some h \<longrightarrow> websocket_drain data_of ws w = h ws w)
   \<and> (data_drain (data_of ws) = None \<longrightarrow> websocket_drain data_of ws w = w)
   \<and> (\<forall>h. data_close (data_of ws) = Some h \<longrightarrow> websocket_close data_of ws c r w = h ws c r w)
   \<and> (data_close (data_of ws) = None \<longrightarrow> websocket_close data_of ws c r w = w)"
  by (simp add: websocket_open_def websocket_message_def websocket_drain_def
        websocket_close_def)

text \<open>
  C7 on a socket whose data stores four logging handlers, and on one whose data stores
  none.
\<close>

theorem websocket_forwards_witness:
  "websocket_open (\<lambda>ws. logging_handlers) 1 [] = [''open'']
 \<and> websocket_message (\<lambda>ws. logging_handlers) 1 (JString ''hi'') [] = [''message'']
 \<and> websocket_drain (\<lambda>ws. logging_handlers) 1 [] = [''drain'']
 \<and> websocket_close (\<lambda>ws. logging_handlers) 1 1000 ''bye'' [] = [''close'', ''bye'']
 \<and> websocket_open (\<lambda>ws. no_handlers) 1 [''before''] = [''before'']
 \<and> websocket_message (\<lambda>ws. no_handlers) 1 (JString ''hi'') [''before''] = [''before'']
 \<and> websocket_drain (\<lambda>ws. no_handlers) 1 [''before''] = [''before'']
 \<and> websocket_close (\<lambda>ws. no_handlers) 1 1000 ''bye'' [''before''] = [''before'']"
  using websocket_forwards
      [of "\<lambda>ws. logging_handlers" 1 "[]" "JString ''hi''" 1000 "''bye''"]
    websocket_forwards
      [of "\<lambda>ws. no_handlers" 1 "[''before'']" "JString ''hi''" 1000 "''bye''"]
  by (simp add: logging_handlers_def no_handlers_def)

subsection \<open>Outbound operations\<close>

lemma validator_new: "validator (new_ElysiaWS rnd raw0 ctx) = data_validator (data raw0)"
  by (simp add: new_ElysiaWS_def set_id_def Let_def split: option.splits)

text \<open>
  C1. On a wrapper that carries a checker \<open>v\<close> (the constructor takes it from the
  connection's data), each of \<^verbatim>\<open>send\<close>, \<^verbatim>\<open>sendText\<close>, \<^verbatim>\<open>sendBinary\<close> and
  \<^verbatim>\<open>publish\<close> consults \<open>Check v\<close> on the outgoing data as it was passed, before any
  serialisation. When the check fails the operation throws the validation error, whose
  code is \<^verbatim>\<open>VALIDATION\<close>, and the wrapper with its socket is exactly as before: nothing
  was written. Only when the check passes does the socket receive a call, and then
  exactly one; \<^verbatim>\<open>send\<close> and \<^verbatim>\<open>publish\<close> make that call unless the serialisation of an
  object throws, and then nothing is written either.
\<close>

theorem outbound_checked_before_write:
  assumes "validator this = Some v"
  shows
    "(\<not> Check v d \<longrightarrow>
        send str this d = (this, Some (ValidationError ''message'' v d))
      \<and> sendText this d = (this, Some (ValidationError ''message'' v d))
      \<and> sendBinary this d = (this, Some (ValidationError ''message'' v d))
      \<and> publish str this topic d c = (this, Some (ValidationError ''message'' v d))
      \<and> code (ValidationError ''message'' v d) = Some ''VALIDATION'')
   \<and> (Check v d \<longrightarrow>
        snd (sendText this d) = None
      \<and> snd (sendBinary this d) = None
      \<and> length (calls (raw (fst (sendText this d)))) = Suc (length (calls (raw this)))
      \<and> length (calls (raw (fst (sendBinary this d)))) = Suc (length (calls (raw this)))
      \<and> (isBuffer d \<or> typeof d \<noteq> ''object'' \<or> str d \<noteq> None \<longrightarrow>
            snd (send str this d) = None
          \<and> length (calls (raw (fst (send str this d)))) = Suc (length (calls (raw this))))
      \<and> (typeof d \<noteq> ''object'' \<or> str d \<noteq> None \<longrightarrow>
            snd (publish str this topic d c) = None
          \<and> length (calls (raw (fst (publish str this topic d c))))
              = Suc (length (calls (raw this))))
      \<and> (\<not> isBuffer d \<and> typeof d = ''object'' \<and> str d = None \<longrightarrow>
            send str this d = (this, Some TypeError))
      \<and> (typeof d = ''object'' \<and> str d = None \<longrightarrow>
            publish str this topic d c = (this, Some TypeError)))
   \<and> (data_validator (data raw0) = Some v \<longrightarrow> validator (new_ElysiaWS rnd raw0 ctx) = Some v)"
  using assms
  by (auto simp add: send_def sendText_def sendBinary_def publish_def validate_def raw_do_def
        validator_new)

text \<open>
  C1 on a connection whose checker accepts strings only: a number is rejected and the
  wrapper is unchanged; a string is sent.
\<close>

theorem outbound_checked_before_write_witness:
  "send example_stringify (new_ElysiaWS 7 checked_socket ()) (JNumber 5)
     = (new_ElysiaWS 7 checked_socket (),
        Some (ValidationError ''message'' strings_only (JNumber 5)))
 \<and> publish example_stringify (new_ElysiaWS 7 checked_socket ()) ''room'' (JNumber 5) None
     = (new_ElysiaWS 7 checked_socket (),
        Some (ValidationError ''message'' strings_only (JNumber 5)))
 \<and> snd (sendText (new_ElysiaWS 7 checked_socket ()) (JString ''hi'')) = None
 \<and> length (calls (raw (fst (sendText (new_ElysiaWS 7 checked_socket ()) (JString ''hi''))))) = 1
 \<and> snd (send example_stringify (new_ElysiaWS 7 checked_socket ()) (JString ''hi'')) = None
 \<and> length (calls (raw (fst (send example_stringify (new_ElysiaWS 7 checked_socket ())
                               (JString ''hi''))))) = 1"
  using outbound_checked_before_write
      [of "new_ElysiaWS 7 checked_socket ()" strings_only "JNumber 5" example_stringify
          "''room''" None checked_socket 7 "()"]
    outbound_checked_before_write
      [of "new_ElysiaWS 7 checked_socket ()" strings_only "JString ''hi''" example_stringify
          "''room''" None checked_socket 7 "()"]
  by (simp add: checked_socket_def strings_only_def new_ElysiaWS_def set_id_def)

text \<open>
  C8, as the claim states it, fails: without a checker the data is not always handed to
  the socket. \<^verbatim>\<open>send\<close> and \<^verbatim>\<open>publish\<close> serialise an object before they call the
  socket, and on \<^verbatim>\<open>{ n: 1n }\<close> the serialiser throws: the operation ends with that
  exception and the socket has received nothing.
\<close>

theorem unserialisable_object_is_not_forwarded:
  "validator (new_ElysiaWS 7 plain_socket ()) = None
 \<and> send example_stringify (new_ElysiaWS 7 plain_socket ()) (JObject [(''n'', JBigInt 1)])
     = (new_ElysiaWS 7 plain_socket (), Some TypeError)
 \<and> publish example_stringify (new_ElysiaWS 7 plain_socket ()) ''room''
       (JObject [(''n'', JBigInt 1)]) None
     = (new_ElysiaWS 7 plain_socket (), Some TypeError)
 \<and> calls (raw (new_ElysiaWS 7 plain_socket ())) = []"
  by (simp add: send_def publish_def validate_def example_stringify_def new_ElysiaWS_def
        set_id_def plain_socket_def)

text \<open>
  C8, amended. On a wrapper without a checker (the connection's data carries none) none
  of the four operations throws a validation error. \<^verbatim>\<open>sendText\<close> and \<^verbatim>\<open>sendBinary\<close>
  always hand the data to the socket. \<^verbatim>\<open>send\<close> hands over a Buffer and a value that is
  not an object as they are, and \<^verbatim>\<open>publish\<close> a value that is not an object; an object
  is handed over as its serialisation, unless the serialiser throws, and then its
  exception ends the operation and nothing is written.
\<close>

theorem no_validator_no_validation_error:
  assumes "validator this = None"
  shows
    "sendText this d = (this\<lparr>raw := raw_do (RawSendText d) (raw this)\<rparr>, None)
   \<and> sendBinary this d = (this\<lparr>raw := raw_do (RawSendBinary d) (raw this)\<rparr>, None)
   \<and> (isBuffer d \<or> typeof d \<noteq> ''object'' \<longrightarrow>
        send str this d = (this\<lparr>raw := raw_do (RawSend d) (raw this)\<rparr>, None))
   \<and> (typeof d \<noteq> ''object'' \<longrightarrow>
        publish str this topic d c
          = (this\<lparr>raw := raw_do (RawPublish topic d c) (raw this)\<rparr>, None))
   \<and> (\<forall>text. \<not> isBuffer d \<and> typeof d = ''object'' \<and> str d = Some text \<longrightarrow>
        send str this d = (this\<lparr>raw := raw_do (RawSend (JString text)) (raw this)\<rparr>, None))
   \<and> (\<forall>text. typeof d = ''object'' \<and> str d = Some text \<longrightarrow>
        publish str this topic d c
          = (this\<lparr>raw := raw_do (RawPublish topic (JString text) c) (raw this)\<rparr>, None))
   \<and> (\<not> isBuffer d \<and> typeof d = ''object'' \<and> str d = None \<longrightarrow>
        send str this d = (this, Some TypeError))
   \<and> (typeof d = ''object'' \<and> str d = None \<longrightarrow>
        publish str this topic d c = (this, Some TypeError))
   \<and> (\<forall>e. snd (send str this d) = Some e \<or> snd (sendText this d) = Some e
          \<or> snd (sendBinary this d) = Some e \<or> snd (publish str this topic d c) = Some e
        \<longrightarrow> code e \<noteq> Some ''VALIDATION'')
   \<and> (data_validator (data raw0) = None \<longrightarrow> validator (new_ElysiaWS rnd raw0 ctx) = None)"
  using assms
  by (auto simp add: send_def sendText_def sendBinary_def publish_def validate_def
        validator_new split: option.splits)

text \<open>
  C8, amended, on a connection without a checker: a number goes out through every
  operation, an object goes out serialised, and a cyclic object ends \<^verbatim>\<open>send\<close> with the
  serialiser's exception.
\<close>

theorem no_validator_no_validation_error_witness:
  "snd (send example_stringify (new_ElysiaWS 7 plain_socket ()) (JNumber 5)) = None
 \<and> calls (raw (fst (send example_stringify (new_ElysiaWS 7 plain_socket ()) (JNumber 5))))
     = [RawSend (JNumber 5)]
 \<and> calls (raw (fst (sendText (new_ElysiaWS 7 plain_socket ()) (JNumber 5))))
     = [RawSendText (JNumber 5)]
 \<and> calls (raw (fst (sendBinary (new_ElysiaWS 7 plain_socket ()) (JNumber 5))))
     = [RawSendBinary (JNumber 5)]
 \<and> calls (raw (fst (publish example_stringify (new_ElysiaWS 7 plain_socket ()) ''room''
                       (JNumber 5) None)))
     = [RawPublish ''room'' (JNumber 5) None]
 \<and> calls (raw (fst (send example_stringify (new_ElysiaWS 7 plain_socket ()) (JObject []))))
     = [RawSend (JString ''{}'')]
 \<and> send example_stringify (new_ElysiaWS 7 plain_socket ()) JCyclic
     = (new_ElysiaWS 7 plain_socket (), Some TypeError)"
  using no_validator_no_validation_error
      [of "new_ElysiaWS 7 plain_socket ()" "JNumber 5" example_stringify "''room''" None
          plain_socket 7 "()"]
    no_validator_no_validation_error
      [of "new_ElysiaWS 7 plain_socket ()" "JObject []" example_stringify "''room''" None
          plain_socket 7 "()"]
    no_validator_no_validation_error
      [of "new_ElysiaWS 7 plain_socket ()" JCyclic example_stringify "''room''" None
          plain_socket 7 "()"]
  by (simp add: plain_socket_def new_ElysiaWS_def set_id_def raw_do_def example_stringify_def)

text \<open>
  C9. When validation lets the data through, \<^verbatim>\<open>send\<close> hands a Buffer to the socket as
  it is, without calling the serialiser, and serialises every other value of type object
  before it writes; \<^verbatim>\<open>publish\<close> has no Buffer case and serialises every value of type
  object, and a Buffer is one. What is written for a serialised value is the
  serialiser's text; when the serialiser throws, nothing is written.
\<close>

theorem send_keeps_Buffer_publish_serialises:
  assumes "validate this d = None"
  shows
    "(isBuffer d \<longrightarrow> send str this d = (this\<lparr>raw := raw_do (RawSend d) (raw this)\<rparr>, None))
   \<and> (\<not> isBuffer d \<and> typeof d = ''object'' \<longrightarrow>
        send str this d =
          (case str d of
             Some text \<Rightarrow> (this\<lparr>raw := raw_do (RawSend (JString text)) (raw this)\<rparr>, None)
           | None \<Rightarrow> (this, Some TypeError)))
   \<and> (typeof d = ''object'' \<longrightarrow>
        publish str this topic d c =
          (case str d of
             Some text \<Rightarrow>
               (this\<lparr>raw := raw_do (RawPublish topic (JString text) c) (raw this)\<rparr>, None)
           | None \<Rightarrow> (this, Some TypeError)))
   \<and> (isBuffer d \<longrightarrow> typeof d = ''object'')"
  using assms by (cases d) (simp_all add: send_def publish_def split: option.splits)

text \<open>C9 on a Buffer and on an empty object.\<close>

theorem send_keeps_Buffer_publish_serialises_witness:
  "calls (raw (fst (send example_stringify (new_ElysiaWS 7 plain_socket ()) (JBuffer [1, 2]))))
     = [RawSend (JBuffer [1, 2])]
 \<and> calls (raw (fst (publish example_stringify (new_ElysiaWS 7 plain_socket ()) ''room''
                       (JBuffer [1, 2]) None)))
     = [RawPublish ''room'' (JString ''{}'') None]
 \<and> calls (raw (fst (send example_stringify (new_ElysiaWS 7 plain_socket ()) (JObject []))))
     = [RawSend (JString ''{}'')]"
  using send_keeps_Buffer_publish_serialises
      [of "new_ElysiaWS 7 plain_socket ()" "JBuffer [1, 2]" example_stringify "''room''" None]
    send_keeps_Buffer_publish_serialises
      [of "new_ElysiaWS 7 plain_socket ()" "JObject []" example_stringify "''room''" None]
  by (simp add: validate_def plain_socket_def new_ElysiaWS_def set_id_def raw_do_def
        example_stringify_def)

subsection \<open>The connection id\<close>

text \<open>\<open>toString\<close> writes the decimal digits: reading them back gives the number.\<close>

lemma digit_value: "d < 10 \<Longrightarrow> of_char (digit d) = (48 + d :: nat)"
proof -
  assume "d < 10"
  then have "d \<in> {0, 1, 2, 3, 4, 5, 6, 7, 8, 9}" by auto
  then show ?thesis by (auto simp: digit_def)
qed

lemma toString_decimal:
  "foldl (\<lambda>n c. 10 * n + (of_char c - 48)) 0 (toString n) = n"
proof (induction n rule: toString.induct)
  case (1 n)
  show ?case
  proof (cases "n < 10")
    case True
    then show ?thesis by (subst toString.simps) (simp add: digit_value)
  next
    case False
    with 1 show ?thesis by (subst toString.simps) (simp add: digit_value)
  qed
qed

lemma toString_not_empty: "toString n \<noteq> []"
  by (subst toString.simps) simp

text \<open>
  C10, as the claim states it, fails: an id supplied as the empty string is not
  preserved. The constructor tests \<^verbatim>\<open>raw.data.id\<close> for truthiness, the empty string
  fails the test, and the id is replaced by the random one.
\<close>

theorem empty_id_is_replaced:
  "data_id (data \<lparr>data = \<lparr>data_id = Some [], data_validator = None\<rparr>, calls = []\<rparr>) = Some []
 \<and> get_id (new_ElysiaWS 7 \<lparr>data = \<lparr>data_id = Some [], data_validator = None\<rparr>, calls = []\<rparr> ())
     = Some ''7''
 \<and> get_id (new_ElysiaWS 7 \<lparr>data = \<lparr>data_id = Some [], data_validator = None\<rparr>, calls = []\<rparr> ())
     \<noteq> data_id (data \<lparr>data = \<lparr>data_id = Some [], data_validator = None\<rparr>, calls = []\<rparr>)"
  by (simp add: new_ElysiaWS_def set_id_def get_id_def toString.simps digit_def)

text \<open>
  C10, amended. After construction the connection data has a defined id: a supplied id
  that is not the empty string is preserved; when the id is missing or is the empty
  string, the decimal string of the random 32-bit value is stored. The getter returns the
  stored id, the setter stores its argument, and no other operation of the wrapper
  (\<^verbatim>\<open>send\<close>, \<^verbatim>\<open>sendText\<close>, \<^verbatim>\<open>sendBinary\<close>, \<^verbatim>\<open>publish\<close>, \<^verbatim>\<open>subscribe\<close>,
  \<^verbatim>\<open>unsubscribe\<close>, \<^verbatim>\<open>close\<close>) changes it.
\<close>

theorem id_defined_and_stable:
  "(\<forall>i. data_id (data raw0) = Some i \<and> i \<noteq> [] \<longrightarrow> get_id (new_ElysiaWS rnd raw0 ctx) = Some i)
 \<and> (data_id (data raw0) = None \<or> data_id (data raw0) = Some [] \<longrightarrow>
      get_id (new_ElysiaWS rnd raw0 ctx) = Some (toString (unat rnd)))
 \<and> get_id (new_ElysiaWS rnd raw0 ctx) \<noteq> None
 \<and> get_id this = data_id (data (raw this))
 \<and> get_id (set_id this newID) = Some newID
 \<and> get_id (fst (send str this d)) = get_id this
 \<and> get_id (fst (sendText this d)) = get_id this
 \<and> get_id (fst (sendBinary this d)) = get_id this
 \<and> get_id (fst (publish str this topic d c)) = get_id this
 \<and> get_id (subscribe this room) = get_id this
 \<and> get_id (unsubscribe this room) = get_id this
 \<and> get_id (close this) = get_id this"
  by (auto simp add: new_ElysiaWS_def set_id_def get_id_def send_def sendText_def sendBinary_def
        publish_def subscribe_def unsubscribe_def close_def raw_do_def Let_def
      split: option.splits)

text \<open>C10, amended, on a connection that brings the id \<^verbatim>\<open>c1\<close> and on one that brings none.\<close>

theorem id_defined_and_stable_witness:
  "get_id (new_ElysiaWS 7 checked_socket ()) = Some ''c1''
 \<and> get_id (new_ElysiaWS 7 plain_socket ()) = Some ''7''"
  using id_defined_and_stable [of checked_socket 7 "()" "new_ElysiaWS 7 checked_socket ()"
      "''c2''" example_stringify JNull "''room''" None "''room''"]
    id_defined_and_stable [of plain_socket 7 "()" "new_ElysiaWS 7 plain_socket ()"
      "''c2''" example_stringify JNull "''room''" None "''room''"]
  by (simp add: checked_socket_def plain_socket_def toString.simps digit_def)

section \<open>Trace events\<close>

text \<open>
  C2, as the claim states it, fails: \<^verbatim>\<open>mapResponse\<close> is a stage of the pipeline and is
  not a trace event name.
\<close>

theorem mapResponse_is_no_trace_event:
  "''mapResponse'' \<in> set pipeline_stages \<and> ''mapResponse'' \<notin> set TraceEvent"
  by (simp add: pipeline_stages_def TraceEvent_def Events_def)

text \<open>
  C2, amended. Every stage of the pipeline other than \<^verbatim>\<open>mapResponse\<close> and
  \<^verbatim>\<open>onResponse\<close> is a trace event name, and so is its \<^verbatim>\<open>.unit\<close> variant unless the
  stage is \<^verbatim>\<open>handle\<close>; the response stage is traced under the name \<^verbatim>\<open>response\<close>, with
  \<^verbatim>\<open>response.unit\<close>; and every span that a trace hook receives is named by a trace event.
\<close>

theorem trace_event_names:
  "(\<forall>s \<in> set pipeline_stages.
      s \<noteq> ''mapResponse'' \<and> s \<noteq> ''onResponse'' \<longrightarrow> s \<in> set TraceEvent)
 \<and> (\<forall>s \<in> set pipeline_stages.
      s \<noteq> ''mapResponse'' \<and> s \<noteq> ''onResponse'' \<and> s \<noteq> ''handle'' \<longrightarrow>
      s @ ''.unit'' \<in> set TraceEvent)
 \<and> ''response'' \<in> set TraceEvent \<and> ''response.unit'' \<in> set TraceEvent
 \<and> set TraceHandler_spans \<subseteq> set TraceEvent"
  by (simp add: pipeline_stages_def TraceEvent_def Events_def TraceHandler_spans_def)

text \<open>C2, amended, on the stages \<^verbatim>\<open>parse\<close> and \<^verbatim>\<open>handle\<close>.\<close>

theorem trace_event_names_witness:
  "''parse'' \<in> set pipeline_stages \<and> ''parse'' \<in> set TraceEvent
 \<and> ''parse.unit'' \<in> set TraceEvent \<and> ''handle'' \<in> set TraceEvent"
  using trace_event_names by (simp add: pipeline_stages_def TraceHandler_spans_def)

section \<open>Error hooks\<close>

text \<open>
  C3. The code and the error that an error hook receives are one of the alternatives of
  its context type: one of the six fixed codes with the error class that belongs to it,
  or a name registered in \<open>T\<close> with the class registered under that name; and each of
  these is an alternative.
\<close>

theorem error_hook_code_and_shape:
  "(c, e) \<in> set (ErrorHandler T) \<longleftrightarrow>
     (c = ''UNKNOWN'' \<and> e = Error)
   \<or> (c = ''VALIDATION'' \<and> e = ValidationError_shape)
   \<or> (c = ''NOT_FOUND'' \<and> e = NotFoundError)
   \<or> (c = ''PARSE'' \<and> e = ParseError)
   \<or> (c = ''INTERNAL_SERVER_ERROR'' \<and> e = InternalServerError)
   \<or> (c = ''INVALID_COOKIE_SIGNATURE'' \<and> e = InvalidCookieSignature)
   \<or> (c \<in> fst ` set T \<and> map_of T c = Some e)"
proof -
  have "c \<in> fst ` set T \<Longrightarrow> \<exists>y. map_of T c = Some y"
    by (metis domIff dom_map_of_conv_image_fst not_Some_eq)
  then have "(c, e) \<in> set (map (\<lambda>K. (K, the (map_of T K))) (map fst T))
      \<longleftrightarrow> c \<in> fst ` set T \<and> map_of T c = Some e"
    by (auto simp: image_iff) force+
  then show ?thesis by (simp add: ErrorHandler_def)
qed

text \<open>C3 on an application that registered the error \<^verbatim>\<open>RateLimited\<close>.\<close>

theorem error_hook_code_and_shape_witness:
  "(''VALIDATION'', ValidationError_shape)
     \<in> set (ErrorHandler [(''RateLimited'', Registered (0::nat))])
 \<and> (''RateLimited'', Registered 0) \<in> set (ErrorHandler [(''RateLimited'', Registered (0::nat))])
 \<and> (''RateLimited'', Error) \<notin> set (ErrorHandler [(''RateLimited'', Registered (0::nat))])"
  using error_hook_code_and_shape
      [of "''VALIDATION''" ValidationError_shape "[(''RateLimited'', Registered (0::nat))]"]
    error_hook_code_and_shape
      [of "''RateLimited''" "Registered 0" "[(''RateLimited'', Registered (0::nat))]"]
    error_hook_code_and_shape
      [of "''RateLimited''" Error "[(''RateLimited'', Registered (0::nat))]"]
  by simp

section \<open>Path parameters\<close>

lemma split_on_slash:
  "sep \<in> set p \<Longrightarrow>
     split_on sep p
       = takeWhile (\<lambda>c. c \<noteq> sep) p # split_on sep (tl (dropWhile (\<lambda>c. c \<noteq> sep) p))"
  by (induction p) (auto split: list.splits)

lemma split_on_no_slash: "sep \<notin> set p \<Longrightarrow> split_on sep p = [p]"
  by (induction p) auto

lemma split_on_hd_tl:
  "split_on sep p = takeWhile (\<lambda>c. c \<noteq> sep) p # tl (split_on sep p)"
  by (induction p) (auto split: list.splits)

lemma IsPathParameter_token:
  "IsPathParameter seg = (case token_of seg of None \<Rightarrow> [] | Some t \<Rightarrow> [t])"
  by (simp add: IsPathParameter_def token_of_def split: list.splits)

lemma map_filter_Cons:
  "List.map_filter f (x # xs)
     = (case f x of None \<Rightarrow> [] | Some y \<Rightarrow> [y]) @ List.map_filter f xs"
  by (simp split: option.splits)

text \<open>The type-level recursion computes the tokens of the path.\<close>

lemma GetPathParameter_tokens: "GetPathParameter p = path_tokens p"
proof (induction p rule: GetPathParameter.induct)
  case (1 Path)
  show ?case
  proof (cases "CHR ''/'' \<in> set Path")
    case True
    with 1 show ?thesis
      by (subst GetPathParameter.simps)
         (simp add: path_tokens_def split_on_slash IsPathParameter_token
            split: option.splits)
  next
    case False
    then show ?thesis
      by (subst GetPathParameter.simps)
         (simp add: path_tokens_def split_on_no_slash IsPathParameter_token
            split: option.splits)
  qed
qed

lemma reduce_Record_type: "reduce (Record_type K t) = Record_type K t"
  by (simp add: Record_type_def)

lemma fields_Record_type:
  "fields (Record_type K t) k = (if k \<in> set K then Some t else None)"
proof -
  have "map_of (map (\<lambda>k. (k, t)) ks) k = (if k \<in> set ks then Some t else None)" for ks
    by (induction ks) auto
  then show ?thesis by (simp add: Record_type_def)
qed

text \<open>
  Without \<^verbatim>\<open>/:\<close> and \<^verbatim>\<open>/*\<close> in the path, no segment after the first is a token; so a
  path that begins with a slash and fails the guard has no token at all.
\<close>

lemma token_of_takeWhile_None:
  "b \<noteq> CHR '':'' \<Longrightarrow> b \<noteq> CHR ''*'' \<Longrightarrow>
     token_of (takeWhile (\<lambda>c. c \<noteq> CHR ''/'') (b # cs)) = None"
  by (simp add: token_of_def)

lemma no_mark_later_segments:
  "\<not> has_parameter_mark p \<Longrightarrow> List.map_filter token_of (tl (split_on CHR ''/'' p)) = []"
proof (induction p)
  case Nil
  show ?case by simp
next
  case (Cons c cs)
  from Cons.prems have rest: "\<not> has_parameter_mark cs" by (cases cs) auto
  show ?case
  proof (cases "c = CHR ''/''")
    case False
    with Cons.IH [OF rest] show ?thesis by (auto split: list.splits)
  next
    case True
    have "token_of (takeWhile (\<lambda>c. c \<noteq> CHR ''/'') cs) = None"
    proof (cases cs)
      case Nil
      then show ?thesis by (simp add: token_of_def)
    next
      case (Cons b cs')
      with True Cons.prems have "b \<noteq> CHR '':''" "b \<noteq> CHR ''*''" by auto
      then show ?thesis unfolding Cons by (rule token_of_takeWhile_None)
    qed
    moreover have "tl (split_on CHR ''/'' (c # cs)) = split_on CHR ''/'' cs"
      using True by simp
    moreover have "List.map_filter token_of (split_on CHR ''/'' cs) =
        List.map_filter token_of
          (takeWhile (\<lambda>c. c \<noteq> CHR ''/'') cs # tl (split_on CHR ''/'' cs))"
      by (subst split_on_hd_tl) (rule refl)
    ultimately show ?thesis
      using Cons.IH [OF rest] by simp
  qed
qed

lemma leading_slash_no_mark_no_tokens:
  "\<not> has_parameter_mark (CHR ''/'' # p) \<Longrightarrow> path_tokens (CHR ''/'' # p) = []"
  using no_mark_later_segments [of "CHR ''/'' # p"]
  by (simp add: path_tokens_def token_of_def)

text \<open>
  C4, as the claim states it, fails for \<^verbatim>\<open>MergeRouteSchema\<close>: on the path \<^verbatim>\<open>:id\<close>,
  whose only segment is the token \<^verbatim>\<open>id\<close>, and schemas without a \<^verbatim>\<open>params\<close> slot, the
  slot it makes is \<^verbatim>\<open>never\<close>, not the mapping of \<^verbatim>\<open>id\<close> to \<^verbatim>\<open>string\<close>. The guard on
  the path asks for \<^verbatim>\<open>/:\<close> or \<^verbatim>\<open>/*\<close>, and a token in the first segment has no slash
  before it.
\<close>

theorem first_segment_parameter_is_never:
  "no_params_slot empty_schema
 \<and> path_tokens '':id'' = [''id'']
 \<and> params (MergeRouteSchema empty_schema empty_schema '':id'') = Some TNever
 \<and> params (MergeRouteSchema empty_schema empty_schema '':id'')
      \<noteq> Some (Record_type (path_tokens '':id'') TString)"
  by (simp add: no_params_slot_def empty_schema_def path_tokens_def token_of_def
        MergeRouteSchema_def MergeSchema_def has_Record_params_def idx_def Let_def
        Record_type_def)

text \<open>
  C4, amended. For a schema without a \<^verbatim>\<open>params\<close> slot and every path \<open>p\<close>, the
  \<^verbatim>\<open>TypedRoute\<close> of \<^verbatim>\<open>LocalHook\<close> is the schema with, as its \<^verbatim>\<open>params\<close> slot,
  exactly the mapping of each token of \<open>p\<close> to \<^verbatim>\<open>string\<close>, the tokens being those of
  the split on the slash; without tokens the mapping is empty. \<^verbatim>\<open>MergeRouteSchema\<close> makes the same slot when
  \<open>p\<close> contains \<^verbatim>\<open>/:\<close> or \<^verbatim>\<open>/*\<close>, and the slot \<^verbatim>\<open>never\<close> otherwise; a path that begins
  with a slash and fails this guard has no tokens.
\<close>

theorem params_synthesized_from_path:
  "(no_params_slot S \<longrightarrow>
      TypedRoute S p = Some (S\<lparr>params := Some (Record_type (path_tokens p) TString)\<rparr>))
 \<and> (no_params_slot A \<and> no_params_slot B \<and> has_parameter_mark p \<longrightarrow>
      params (MergeRouteSchema A B p) = Some (Record_type (path_tokens p) TString))
 \<and> (no_params_slot A \<and> no_params_slot B \<and> \<not> has_parameter_mark p \<longrightarrow>
      params (MergeRouteSchema A B p) = Some TNever)
 \<and> (\<not> has_parameter_mark (CHR ''/'' # q) \<longrightarrow> path_tokens (CHR ''/'' # q) = [])
 \<and> fields (Record_type (path_tokens p) TString) k
      = (if k \<in> set (path_tokens p) then Some TString else None)"
  by (auto simp add: no_params_slot_def TypedRoute_def MergeRouteSchema_def MergeSchema_def
        has_Record_params_def idx_def Let_def GetPathParameter_tokens fields_Record_type
        leading_slash_no_mark_no_tokens intersect_def reduce_Record_type)

text \<open>C4, amended, on the paths \<^verbatim>\<open>/users/:id/*\<close> and \<^verbatim>\<open>/users\<close>.\<close>

theorem params_synthesized_from_path_witness:
  "TypedRoute empty_schema ''/users/:id/*''
     = Some (empty_schema\<lparr>params := Some (TObject [(''id'', TString), (''*'', TString)])\<rparr>)
 \<and> params (MergeRouteSchema empty_schema empty_schema ''/users/:id/*'')
     = Some (TObject [(''id'', TString), (''*'', TString)])
 \<and> params (MergeRouteSchema empty_schema empty_schema ''/users'') = Some TNever
 \<and> path_tokens ''/users'' = []"
  using params_synthesized_from_path
      [of empty_schema "''/users/:id/*''" empty_schema empty_schema "''users''" "''id''"]
    params_synthesized_from_path
      [of empty_schema "''/users''" empty_schema empty_schema "''users''" "''id''"]
  by (simp add: no_params_slot_def empty_schema_def path_tokens_def token_of_def
        Record_type_def)

section \<open>Merging route schemas\<close>

text \<open>
  The test is stable under the reduction of unions, and it holds exactly when
  \<^verbatim>\<open>undefined\<close> is a value of the type.
\<close>

lemma undefined_extends_reduce: "undefined_extends (reduce t) = undefined_extends t"
  by (induction t) (auto simp add: Let_def)

lemma undefined_extends_value: "undefined_extends t = is_value_of JUndefined t"
  by (induction t) auto

lemma reduce_marks_admit_undefined:
  "reduce t = TUndefined \<or> reduce t = TUnknown \<Longrightarrow> undefined_extends t"
  using undefined_extends_reduce [of t] by auto

text \<open>
  C5, as the claim states it, fails: the route-local schema defines \<^verbatim>\<open>body\<close> as
  \<^verbatim>\<open>string | undefined\<close>, the inherited one as \<^verbatim>\<open>number\<close>, and the merged slot is the
  inherited \<^verbatim>\<open>number\<close>. The test of \<^verbatim>\<open>MergeSchema\<close> is \<^verbatim>\<open>undefined extends A['body']\<close>,
  which holds for every type that admits \<^verbatim>\<open>undefined\<close>.
\<close>

theorem undefined_admitting_slot_loses:
  "slot_defined (empty_schema\<lparr>body := Some (TUnion TString TUndefined)\<rparr>) Body
 \<and> idx (empty_schema\<lparr>body := Some (TUnion TString TUndefined)\<rparr>) Body
     = TUnion TString TUndefined
 \<and> idx (MergeSchema (empty_schema\<lparr>body := Some (TUnion TString TUndefined)\<rparr>)
                     (empty_schema\<lparr>body := Some TNumber\<rparr>)) Body = TNumber
 \<and> idx (MergeSchema (empty_schema\<lparr>body := Some (TUnion TString TUndefined)\<rparr>)
                     (empty_schema\<lparr>body := Some TNumber\<rparr>)) Body
      \<noteq> idx (empty_schema\<lparr>body := Some (TUnion TString TUndefined)\<rparr>) Body"
  by (simp add: slot_defined_def empty_schema_def MergeSchema_def idx_def)

text \<open>
  C5, amended. For all schemas \<open>A\<close> (route-local) and \<open>B\<close> (inherited) and every slot,
  the merged slot is \<open>A\<close>'s when \<^verbatim>\<open>undefined\<close> is not assignable to the type of \<open>A\<close>'s
  slot, that is, is not one of its values, and \<open>B\<close>'s otherwise. So \<open>A\<close>'s slot is
  taken only if \<open>A\<close> defines it, and \<open>B\<close>'s is taken whenever \<open>A\<close> does not define
  it.
\<close>

theorem MergeSchema_slot:
  "idx (MergeSchema A B) s = (if undefined_extends (idx A s) then idx B s else idx A s)
 \<and> undefined_extends (idx A s) = is_value_of JUndefined (idx A s)
 \<and> (\<not> undefined_extends (idx A s) \<longrightarrow> slot_defined A s)
 \<and> (\<not> slot_defined A s \<longrightarrow> idx (MergeSchema A B) s = idx B s)"
proof -
  have merged: "idx (MergeSchema A B) s
      = (if undefined_extends (idx A s) then idx B s else idx A s)"
    by (cases s) (simp_all add: MergeSchema_def idx_def)
  have undefined_admitted: "undefined_extends (idx A s)" if "\<not> slot_defined A s"
  proof (cases "slot_of A s")
    case None
    then show ?thesis by (simp add: idx_def)
  next
    case (Some t)
    with that have "reduce t = TUndefined \<or> reduce t = TUnknown"
      by (auto simp add: slot_defined_def)
    then have "undefined_extends t" by (rule reduce_marks_admit_undefined)
    with Some show ?thesis by (simp add: idx_def)
  qed
  show ?thesis
    using merged undefined_admitted undefined_extends_value [of "idx A s"] by auto
qed

text \<open>C5, amended, on a route-local \<^verbatim>\<open>body\<close> of type \<^verbatim>\<open>string\<close> and on a missing one.\<close>

theorem MergeSchema_slot_witness:
  "idx (MergeSchema (empty_schema\<lparr>body := Some TString\<rparr>)
                    (empty_schema\<lparr>body := Some TNumber\<rparr>)) Body = TString
 \<and> idx (MergeSchema empty_schema (empty_schema\<lparr>body := Some TNumber\<rparr>)) Body = TNumber"
  using MergeSchema_slot
      [of "empty_schema\<lparr>body := Some TString\<rparr>" "empty_schema\<lparr>body := Some TNumber\<rparr>" Body]
    MergeSchema_slot [of empty_schema "empty_schema\<lparr>body := Some TNumber\<rparr>" Body]
  by (simp add: idx_def empty_schema_def slot_defined_def)

section \<open>Composing singleton namespaces\<close>

lemma map_of_Collision:
  "map_of (Collision A B) k = (if k \<in> set (keyof B) then None else map_of A k)"
  by (induction A) (auto simp: Collision_def)

text \<open>
  When \<open>A\<close> keeps a required property that \<open>B\<close> does not have, \<^verbatim>\<open>Reconcile\<close> is the
  union of the two, \<open>B\<close> winning on a common name.
\<close>

lemma Reconcile_with_required_rest:
  assumes "\<not> empty_extends (Collision A B)"
  shows "map_of (Reconcile A B) k = (case map_of B k of Some v \<Rightarrow> Some v | None \<Rightarrow> map_of A k)"
proof (cases "k \<in> fst ` set B")
  case True
  then obtain v where "map_of B k = Some v"
    by (metis map_of_eq_None_iff not_Some_eq)
  with True assms show ?thesis
    by (simp add: Reconcile_def map_of_Collision keyof_def map_add_def)
next
  case False
  then have "map_of B k = None" by (simp add: map_of_eq_None_iff)
  with False assms show ?thesis
    by (simp add: Reconcile_def map_of_Collision keyof_def map_add_def split: option.splits)
qed

text \<open>Otherwise it is \<open>B\<close> alone.\<close>

lemma Reconcile_without_required_rest:
  "empty_extends (Collision A B) \<Longrightarrow> Reconcile A B = B"
  by (simp add: Reconcile_def)

text \<open>
  C6 does not hold of the code. With \<^verbatim>\<open>A = { a?: number }\<close> and \<^verbatim>\<open>B = { b: string }\<close>
  the property left of \<open>A\<close> is optional, \<^verbatim>\<open>{} extends Collision\<close> holds, and
  \<^verbatim>\<open>Reconcile<A, B>\<close> is \<open>B\<close> alone: the key \<^verbatim>\<open>a\<close> of \<open>A\<close> is not a key of the result.
\<close>

theorem Reconcile_drops_optional_key:
  "Reconcile [(''a'', \<lparr>optional = True, ty = TNumber\<rparr>)]
             [(''b'', \<lparr>optional = False, ty = TString\<rparr>)]
     = [(''b'', \<lparr>optional = False, ty = TString\<rparr>)]
 \<and> ''a'' \<in> set (keyof [(''a'', \<lparr>optional = True, ty = TNumber\<rparr>)])
 \<and> ''a'' \<notin> set (keyof (Reconcile [(''a'', \<lparr>optional = True, ty = TNumber\<rparr>)]
                                     [(''b'', \<lparr>optional = False, ty = TString\<rparr>)]))"
  by (simp add: Reconcile_def Collision_def empty_extends_def keyof_def)

end
